theory Spec2Isabelle
  imports Complex_Main
begin

section \<open>Errors and warnings\<close>

text \<open>
  Every \<^verbatim>\<open>raise\<close>, failed \<^verbatim>\<open>assert\<close> and failing primitive of
  \<^verbatim>\<open>notebooks/project_imports.py\<close> is a value of \<open>py_error\<close>. \<open>ValueError\<close> carries
  the message of the source where the source gives one. \<open>NotModelled\<close> is no Python error:
  it marks an input of the aggregation primitive that the instance \<open>sum_mean\<close> below
  does not cover.
\<close>

datatype py_error =
    IndexError
  | ValueError string
  | KeyError
  | TypeError
  | AssertionError
  | AttributeError
  | SpecificationError
  | NotModelled

text \<open>
  \<^verbatim>\<open>warnings.warn(msg)\<close> is modelled by the list of messages emitted so far, returned
  next to the outcome of the call.
\<close>

type_synonym warnings = "string list"

section \<open>DirectoryMapper\<close>

text \<open>
  A \<^verbatim>\<open>pathlib.Path\<close> is kept symbolic: \<open>Path s\<close> is \<^verbatim>\<open>Path(s)\<close> and \<open>Div p s\<close> is
  \<^verbatim>\<open>p / s\<close>. No equation between path expressions is assumed, so what is proved of a
  path holds for every interpretation of the join operator.
\<close>

datatype path = Path string | Div path string

record DirectoryMapper =
  base_dir :: path
  project_dir :: path
  config_path :: path
  sql_dir :: path
  data_dir :: path
  raw_data_dir :: path
  interim_data_dir :: path
  processed_data_dir :: path
  external_data_dir :: path
  model_dir :: path
  output_dir :: path
  output_data_dir :: path
  output_figs_dir :: path
  output_pred_dir :: path

text \<open>\<^verbatim>\<open>DirectoryMapper.__init__(self, project_name, base_dir)\<close>, lines 13 to 35.\<close>

definition DirectoryMapper_init :: "string \<Rightarrow> path \<Rightarrow> DirectoryMapper" where
  "DirectoryMapper_init project_name base =
     (let project = Div base project_name;
          data = Div project ''data'';
          output = Div project ''reports''
      in \<lparr> base_dir = base,
           project_dir = project,
           config_path = Div project ''configs'',
           sql_dir = Div project ''sql'',
           data_dir = data,
           raw_data_dir = Div data ''raw'',
           interim_data_dir = Div data ''interim'',
           processed_data_dir = Div data ''processed'',
           external_data_dir = Div data ''external'',
           model_dir = Div project ''models'',
           output_dir = output,
           output_data_dir = Div output ''data'',
           output_figs_dir = Div output ''figures'',
           output_pred_dir = Div output ''predictions'' \<rparr>)"

text \<open>
  The argument handed to the reader is the plain string \<^verbatim>\<open>file_name\<close> when
  \<^verbatim>\<open>level is None\<close> and a \<^verbatim>\<open>Path\<close> otherwise. A \<open>read_call\<close> is the call to
  \<^verbatim>\<open>pd.read_parquet\<close> or \<^verbatim>\<open>pd.read_csv\<close> that \<^verbatim>\<open>load_data\<close> makes.
\<close>

datatype file_arg = StrArg string | PathArg path

datatype read_call = read_parquet file_arg | read_csv file_arg

text \<open>
  \<^verbatim>\<open>DirectoryMapper.load_data(self, file_name, level=None, file_type='parquet')\<close>,
  lines 38 to 67. The readers of the dataframe library are the parameter \<open>io\<close>: what a
  read call returns, a table or the error it raises. The result is the list of read
  calls made, with the outcome. Line 41 indexes \<^verbatim>\<open>file_type[0]\<close>, which raises
  \<^verbatim>\<open>IndexError\<close> on the empty string; \<^verbatim>\<open>level\<close> is \<open>None\<close> or a string.
\<close>

definition load_data ::
  "(read_call \<Rightarrow> py_error + 'tbl) \<Rightarrow> DirectoryMapper \<Rightarrow> string \<Rightarrow> string option \<Rightarrow> string
     \<Rightarrow> read_call list \<times> (py_error + 'tbl)" where
  "load_data io self file_name level file_type =
     (case file_type of
        [] \<Rightarrow> ([], Inl IndexError)
      | c # rest \<Rightarrow>
          (let file_type = (if c = CHR ''.'' then rest else file_type);
               file_name = file_name @ ''.'' @ file_type;
               in_file_name =
                 (case level of
                    None \<Rightarrow> Inr (StrArg file_name)
                  | Some l \<Rightarrow>
                      if l = ''raw'' then Inr (PathArg (Div (raw_data_dir self) file_name))
                      else if l = ''interim'' then
                        Inr (PathArg (Div (interim_data_dir self) file_name))
                      else if l = ''processed'' then
                        Inr (PathArg (Div (processed_data_dir self) file_name))
                      else if l = ''external'' then
                        Inr (PathArg (Div (external_data_dir self) file_name))
                      else Inl (ValueError ''Please provide valid level''))
           in case in_file_name of
                Inl e \<Rightarrow> ([], Inl e)
              | Inr p \<Rightarrow>
                  if file_type = ''parquet'' then ([read_parquet p], io (read_parquet p))
                  else if file_type = ''csv'' then ([read_csv p], io (read_csv p))
                  else ([], Inl (ValueError ''Provide valid file type''))))"

text \<open>
  The words of the specification for the two lookups of \<^verbatim>\<open>load_data\<close>: the data-level
  directory keyed by the level, and the file type with a leading separator stripped.
\<close>

definition data_level_dir :: "DirectoryMapper \<Rightarrow> string \<Rightarrow> path" where
  "data_level_dir self l =
     (if l = ''raw'' then raw_data_dir self
      else if l = ''interim'' then interim_data_dir self
      else if l = ''processed'' then processed_data_dir self
      else external_data_dir self)"

definition strip_separator :: "string \<Rightarrow> string" where
  "strip_separator file_type = (if take 1 file_type = ''.'' then drop 1 file_type else file_type)"

section \<open>Tables\<close>

text \<open>
  A column of a dataframe is a \<open>series\<close>: its dtype with its cells. The dtypes modelled
  are \<^verbatim>\<open>int64\<close>, \<^verbatim>\<open>float64\<close> (exact reals: rounding is not modelled),
  \<^verbatim>\<open>object\<close> holding strings, and the time-zone-naive \<^verbatim>\<open>datetime64\<close>; cells hold
  no missing value. A timestamp is given by its calendar fields.
\<close>

datatype timestamp = Timestamp (ts_year: int) (ts_month: int) (ts_day: int) (ts_nanos: int)

datatype series =
    Int64 "int list"
  | Float64 "real list"
  | Object "string list"
  | Datetime64 "timestamp list"

text \<open>
  A \<open>table\<close> is a dataframe with a flat column index and the default row index: its
  columns in order, each with its label. The tables meant are those whose columns all
  have the same number of cells; where a result depends on the labels being distinct,
  the theorem says so.
\<close>

type_synonym table = "(string \<times> series) list"






section \<open>create\_date\_parts\<close>



section \<open>Frames, grouping and aggregation\<close>

text \<open>
  The result of an aggregation is a \<open>frame\<close>: the levels of its row index with their
  names (none for the default index), its column index, flat or two-level, and its
  columns in order.
\<close>

datatype col_index = Flat "string list" | Multi "(string \<times> string) list"

datatype frame =
  Frame (row_index: "(string \<times> series) list") (columns: col_index) (data: "series list")

text \<open>The table \<^verbatim>\<open>df\<close> itself, as line 197 returns it.\<close>

definition of_table :: "table \<Rightarrow> frame" where
  "of_table df = Frame [] (Flat (map fst df)) (map snd df)"

fun series_len :: "series \<Rightarrow> nat" where
  "series_len (Int64 xs) = length xs"
| "series_len (Float64 xs) = length xs"
| "series_len (Object xs) = length xs"
| "series_len (Datetime64 xs) = length xs"

definition nrows :: "table \<Rightarrow> nat" where
  "nrows df = (case df of [] \<Rightarrow> 0 | p # _ \<Rightarrow> series_len (snd p))"

definition pick :: "'a list \<Rightarrow> nat list \<Rightarrow> 'a list" where
  "pick xs ps = map (\<lambda>i. xs ! i) ps"

fun take_rows :: "nat list \<Rightarrow> series \<Rightarrow> series" where
  "take_rows ps (Int64 xs) = Int64 (pick xs ps)"
| "take_rows ps (Float64 xs) = Float64 (pick xs ps)"
| "take_rows ps (Object xs) = Object (pick xs ps)"
| "take_rows ps (Datetime64 xs) = Datetime64 (pick xs ps)"

subsection \<open>The order of the group keys\<close>

text \<open>
  \<^verbatim>\<open>df.groupby(keys)\<close> sorts the groups by key (\<^verbatim>\<open>sort=True\<close> is the default of the
  primitive): integers and floats by value, strings by code point, timestamps by time,
  several keys lexicographically.
\<close>

datatype order3 = Lt | Eq | Gt

definition cmp :: "'a::linorder \<Rightarrow> 'a \<Rightarrow> order3" where
  "cmp a b = (if a < b then Lt else if a = b then Eq else Gt)"

fun str_cmp :: "string \<Rightarrow> string \<Rightarrow> order3" where
  "str_cmp [] [] = Eq"
| "str_cmp [] (y # ys) = Lt"
| "str_cmp (x # xs) [] = Gt"
| "str_cmp (x # xs) (y # ys) =
     (if x = y then str_cmp xs ys
      else if (of_char x :: nat) < of_char y then Lt else Gt)"

fun then_cmp :: "order3 \<Rightarrow> order3 \<Rightarrow> order3" where
  "then_cmp Eq r = r"
| "then_cmp l r = l"

fun ts_cmp :: "timestamp \<Rightarrow> timestamp \<Rightarrow> order3" where
  "ts_cmp (Timestamp y m d n) (Timestamp y' m' d' n') =
     then_cmp (cmp y y') (then_cmp (cmp m m') (then_cmp (cmp d d') (cmp n n')))"

fun series_cmp :: "series \<Rightarrow> nat \<Rightarrow> nat \<Rightarrow> order3" where
  "series_cmp (Int64 xs) i j = cmp (xs ! i) (xs ! j)"
| "series_cmp (Float64 xs) i j = cmp (xs ! i) (xs ! j)"
| "series_cmp (Object xs) i j = str_cmp (xs ! i) (xs ! j)"
| "series_cmp (Datetime64 xs) i j = ts_cmp (xs ! i) (xs ! j)"

fun rows_cmp :: "series list \<Rightarrow> nat \<Rightarrow> nat \<Rightarrow> order3" where
  "rows_cmp [] i j = Eq"
| "rows_cmp (s # ss) i j = then_cmp (series_cmp s i j) (rows_cmp ss i j)"

text \<open>
  A group is its first row with its later rows. \<open>place\<close> puts row \<open>i\<close> into the groups
  found so far, kept in key order; \<open>group_rows\<close> does so for the rows \<open>0..<n\<close>.
\<close>

fun place :: "(nat \<Rightarrow> nat \<Rightarrow> order3) \<Rightarrow> nat \<Rightarrow> (nat \<times> nat list) list \<Rightarrow> (nat \<times> nat list) list" where
  "place c i [] = [(i, [])]"
| "place c i (g # gs) =
     (case c i (fst g) of
        Lt \<Rightarrow> (i, []) # g # gs
      | Eq \<Rightarrow> (fst g, snd g @ [i]) # gs
      | Gt \<Rightarrow> g # place c i gs)"

definition group_rows :: "(nat \<Rightarrow> nat \<Rightarrow> order3) \<Rightarrow> nat \<Rightarrow> (nat \<times> nat list) list" where
  "group_rows c n = foldl (\<lambda>gs i. place c i gs) [] [0..<n]"

subsection \<open>groupby and agg\<close>

datatype groupby_arg = ByStr string | ByList "string list"

datatype agg_funcs = One string | Many "string list"

text \<open>
  \<^verbatim>\<open>agg_\<close> is a function name or a \<^verbatim>\<open>dict\<close> from column label to a function name
  or a list of function names; the dict is kept as the list of its items in order.
\<close>

datatype agg_arg = AggStr string | AggDict "(string \<times> agg_funcs) list"

fun is_Many :: "agg_funcs \<Rightarrow> bool" where
  "is_Many (Many fs) = True"
| "is_Many (One f) = False"

fun funcs_of :: "agg_funcs \<Rightarrow> string list" where
  "funcs_of (One f) = [f]"
| "funcs_of (Many fs) = fs"

text \<open>
  The reductions of the aggregation primitive are a parameter: \<open>R f groups s\<close> is the
  column holding, for each group of row positions, the reduction named \<open>f\<close> of the
  cells of \<open>s\<close> at these positions, or the error the primitive raises.
\<close>

type_synonym reducer = "string \<Rightarrow> nat list list \<Rightarrow> series \<Rightarrow> py_error + series"

fun collect :: "('e + 'a) list \<Rightarrow> 'e + 'a list" where
  "collect [] = Inr []"
| "collect (x # xs) =
     (case x of
        Inl e \<Rightarrow> Inl e
      | Inr a \<Rightarrow> (case collect xs of Inl e \<Rightarrow> Inl e | Inr as \<Rightarrow> Inr (a # as)))"

definition lookup_column :: "table \<Rightarrow> string \<Rightarrow> py_error + series" where
  "lookup_column df k = (case map_of df k of None \<Rightarrow> Inl KeyError | Some s \<Rightarrow> Inr s)"

text \<open>
  \<^verbatim>\<open>df.groupby(groupby_cols)\<close>: the levels of the row index of the result (the key
  columns at the first row of each group) and the groups as lists of row positions. No
  key is a \<open>ValueError\<close>, a key that is no column a \<open>KeyError\<close>.
\<close>

definition groupby ::
  "table \<Rightarrow> groupby_arg \<Rightarrow> py_error + (string \<times> series) list \<times> nat list list" where
  "groupby df groupby_cols =
     (let keys = (case groupby_cols of ByStr g \<Rightarrow> [g] | ByList gs \<Rightarrow> gs) in
      if keys = [] then Inl (ValueError ''No group keys passed!'')
      else case collect (map (lookup_column df) keys) of
             Inl e \<Rightarrow> Inl e
           | Inr ks \<Rightarrow>
               (let gs = group_rows (rows_cmp ks) (nrows df) in
                Inr (zip keys (map (take_rows (map fst gs)) ks),
                     map (\<lambda>g. fst g # snd g) gs)))"

text \<open>
  \<^verbatim>\<open>.agg(agg_)\<close> on the grouped table. A function name reduces every column that is no
  key, and the column index stays flat. A dict reduces the columns it names: when every
  value is one function name the column index is flat, the labels being the keys of the
  dict; when some value is a list every value is read as a list and the column index has
  the two levels (column, function). A list with a repeated function name is a
  \<open>SpecificationError\<close>.
\<close>

definition agg ::
  "reducer \<Rightarrow> table \<Rightarrow> string list \<Rightarrow> nat list list \<Rightarrow> agg_arg
     \<Rightarrow> py_error + col_index \<times> series list" where
  "agg R df keys gs agg' =
     (case agg' of
        AggStr f \<Rightarrow>
          (let cols = filter (\<lambda>p. fst p \<notin> set keys) df in
           case collect (map (\<lambda>p. R f gs (snd p)) cols) of
             Inl e \<Rightarrow> Inl e
           | Inr ss \<Rightarrow> Inr (Flat (map fst cols), ss))
      | AggDict d \<Rightarrow>
          if d = [] then Inl (ValueError ''No objects to concatenate'')
          else if list_ex (\<lambda>p. funcs_of (snd p) = []) d then Inl (ValueError ''no results'')
          else if list_ex (\<lambda>p. \<not> distinct (funcs_of (snd p))) d then Inl SpecificationError
          else
            (let labels = concat (map (\<lambda>p. map (\<lambda>f. (fst p, f)) (funcs_of (snd p))) d) in
             case collect (map (\<lambda>l. case lookup_column df (fst l) of
                                       Inl e \<Rightarrow> Inl e
                                     | Inr s \<Rightarrow> R (snd l) gs s) labels) of
               Inl e \<Rightarrow> Inl e
             | Inr ss \<Rightarrow>
                 if list_ex (\<lambda>p. is_Many (snd p)) d then Inr (Multi labels, ss)
                 else Inr (Flat (map fst labels), ss)))"

text \<open>
  \<^verbatim>\<open>df_agg.reset_index()\<close>: the levels of the row index become the leading columns,
  the last level inserted first; under a two-level column index the label of a level is
  (name, ''). A label that is already a column is a \<open>ValueError\<close>.
\<close>

fun reset_levels ::
  "(string \<times> series) list \<Rightarrow> col_index \<times> series list \<Rightarrow> py_error + col_index \<times> series list" where
  "reset_levels [] cd = Inr cd"
| "reset_levels (l # ls) cd =
     (case reset_levels ls cd of
        Inl e \<Rightarrow> Inl e
      | Inr cd' \<Rightarrow>
          (case fst cd' of
             Flat ns \<Rightarrow>
               if fst l \<in> set ns then Inl (ValueError ''cannot insert, already exists'')
               else Inr (Flat (fst l # ns), snd l # snd cd')
           | Multi ps \<Rightarrow>
               if (fst l, '''') \<in> set ps then Inl (ValueError ''cannot insert, already exists'')
               else Inr (Multi ((fst l, '''') # ps), snd l # snd cd')))"

definition reset_index :: "frame \<Rightarrow> py_error + frame" where
  "reset_index fr =
     (case reset_levels (row_index fr) (columns fr, data fr) of
        Inl e \<Rightarrow> Inl e
      | Inr cd \<Rightarrow> Inr (Frame [] (fst cd) (snd cd)))"

subsection \<open>Collapsing the column index\<close>

text \<open>\<^verbatim>\<open>sep.join(parts)\<close> and \<^verbatim>\<open>s.removesuffix(suffix)\<close> of Python strings.\<close>

fun join :: "string \<Rightarrow> string list \<Rightarrow> string" where
  "join sep [] = []"
| "join sep [x] = x"
| "join sep (x # y # ys) = x @ sep @ join sep (y # ys)"

definition removesuffix :: "string \<Rightarrow> string \<Rightarrow> string" where
  "removesuffix s suffix =
     (if suffix \<noteq> [] \<and> length suffix \<le> length s
           \<and> drop (length s - length suffix) s = suffix
      then take (length s - length suffix) s else s)"

text \<open>Lines 213 to 219.\<close>

definition collapse_columns :: "bool \<Rightarrow> frame \<Rightarrow> warnings \<times> frame" where
  "collapse_columns collapse_multicolumn df_agg =
     (if collapse_multicolumn then
        (case columns df_agg of
           Multi ps \<Rightarrow>
             ([], Frame (row_index df_agg)
                    (Flat (map (\<lambda>col. removesuffix col ''_'')
                             (map (\<lambda>col. join ''_'' [fst col, snd col]) ps)))
                    (data df_agg))
         | Flat ns \<Rightarrow>
             ([''No MultiIndex detected. No column collapse wil be performed''], df_agg))
      else ([], df_agg))"

text \<open>
  The flat name of a pair of levels, in words: the two levels joined by an underscore,
  with one trailing underscore removed.
\<close>

definition flattened_name :: "string \<Rightarrow> string \<Rightarrow> string" where
  "flattened_name name func =
     (if func = [] then name
      else if last func = CHR ''_'' then name @ ''_'' @ butlast func
      else name @ ''_'' @ func)"

subsection \<open>Selecting columns\<close>

text \<open>
  \<^verbatim>\<open>df_agg[keys]\<close> for a list of keys: for each key in order, every column it
  matches; a key that matches no column is a \<open>KeyError\<close>. A string matches a flat label
  equal to it and a two-level label by its first level; a pair matches the two-level
  label equal to it.
\<close>

datatype label = Name string | Pair "string \<times> string"

definition getitem_list :: "frame \<Rightarrow> label list \<Rightarrow> py_error + frame" where
  "getitem_list fr keys =
     (case columns fr of
        Flat ns \<Rightarrow>
          (let cols = zip ns (data fr);
               hits = map (\<lambda>k. case k of
                                 Name s \<Rightarrow> filter (\<lambda>p. fst p = s) cols
                               | Pair q \<Rightarrow> []) keys
           in if list_ex (\<lambda>h. h = []) hits then Inl KeyError
              else Inr (Frame (row_index fr) (Flat (map fst (concat hits)))
                          (map snd (concat hits))))
      | Multi ps \<Rightarrow>
          (let cols = zip ps (data fr);
               hits = map (\<lambda>k. case k of
                                 Name s \<Rightarrow> filter (\<lambda>p. fst (fst p) = s) cols
                               | Pair q \<Rightarrow> filter (\<lambda>p. fst p = q) cols) keys
           in if list_ex (\<lambda>h. h = []) hits then Inl KeyError
              else Inr (Frame (row_index fr) (Multi (map fst (concat hits)))
                          (map snd (concat hits)))))"

section \<open>groupby\_and\_agg\<close>

text \<open>
  Keyword arguments are a dict from name to value; only \<^verbatim>\<open>reset_index\<close> is read.
\<close>

datatype py_value = PyNone | PyBool bool | PyInt int | PyStr string

type_synonym kwargs = "string \<rightharpoonup> py_value"

text \<open>Lines 193 to 197: is some key of the dict no column of \<^verbatim>\<open>df\<close>?\<close>

definition invalid_agg_key :: "table \<Rightarrow> agg_arg \<Rightarrow> bool" where
  "invalid_agg_key df agg' =
     (case agg' of
        AggStr f \<Rightarrow> False
      | AggDict d \<Rightarrow> list_ex (\<lambda>a. a \<notin> set (map fst df)) (map fst d))"

text \<open>Lines 200 to 204; \<^verbatim>\<open>type(v) == bool\<close> holds of \<^verbatim>\<open>True\<close> and \<^verbatim>\<open>False\<close> only.\<close>

definition reset_index_kwarg :: "kwargs \<Rightarrow> py_error + bool" where
  "reset_index_kwarg kwargs =
     (case kwargs ''reset_index'' of
        None \<Rightarrow> Inr True
      | Some v \<Rightarrow> (case v of PyBool b \<Rightarrow> Inr b | _ \<Rightarrow> Inl AssertionError))"

text \<open>Lines 207 to 219: group, aggregate, reset the index, collapse the column index.\<close>

definition aggregate_and_collapse ::
  "reducer \<Rightarrow> table \<Rightarrow> groupby_arg \<Rightarrow> agg_arg \<Rightarrow> bool \<Rightarrow> bool \<Rightarrow> warnings \<times> (py_error + frame)" where
  "aggregate_and_collapse R df groupby_cols agg' collapse_multicolumn reset_index' =
     (case groupby df groupby_cols of
        Inl e \<Rightarrow> ([], Inl e)
      | Inr grouped \<Rightarrow>
          (case agg R df (map fst (fst grouped)) (snd grouped) agg' of
             Inl e \<Rightarrow> ([], Inl e)
           | Inr cd \<Rightarrow>
               (let df_agg = Frame (fst grouped) (fst cd) (snd cd) in
                case (if reset_index' then reset_index df_agg else Inr df_agg) of
                  Inl e \<Rightarrow> ([], Inl e)
                | Inr df_agg \<Rightarrow>
                    (let collapsed = collapse_columns collapse_multicolumn df_agg in
                     (fst collapsed, Inr (snd collapsed))))))"

text \<open>
  Lines 222 to 226: the keys of the final selection. \<^verbatim>\<open>groupby_cols + return_cols\<close>
  is a \<open>TypeError\<close> when \<^verbatim>\<open>groupby_cols\<close> is a string and \<^verbatim>\<open>return_cols\<close> a list.
\<close>

definition narrow_keys ::
  "groupby_arg \<Rightarrow> string list option \<Rightarrow> bool \<Rightarrow> frame \<Rightarrow> py_error + label list" where
  "narrow_keys groupby_cols return_cols reset_index' df_agg =
     (case return_cols of
        None \<Rightarrow>
          Inr (case columns df_agg of Flat ns \<Rightarrow> map Name ns | Multi ps \<Rightarrow> map Pair ps)
      | Some rc \<Rightarrow>
          if reset_index' then
            (case groupby_cols of
               ByStr g \<Rightarrow> Inl TypeError
             | ByList gs \<Rightarrow> Inr (map Name (gs @ rc)))
          else Inr (map Name rc))"

text \<open>
  \<^verbatim>\<open>groupby_and_agg(df, groupby_cols, agg_, collapse_multicolumn=True,
  return_cols=None, **kwargs)\<close>, lines 157 to 229: the warnings emitted, with the frame
  returned or the error raised.
\<close>

definition groupby_and_agg ::
  "reducer \<Rightarrow> table \<Rightarrow> groupby_arg \<Rightarrow> agg_arg \<Rightarrow> bool \<Rightarrow> string list option \<Rightarrow> kwargs
     \<Rightarrow> warnings \<times> (py_error + frame)" where
  "groupby_and_agg R df groupby_cols agg' collapse_multicolumn return_cols kwargs =
     (if invalid_agg_key df agg' then
        ([''Invalid column name passed in agg_ argument - returning original DataFrame''],
         Inr (of_table df))
      else
        (case reset_index_kwarg kwargs of
           Inl e \<Rightarrow> ([], Inl e)
         | Inr reset_index' \<Rightarrow>
             (let staged = aggregate_and_collapse R df groupby_cols agg'
                             collapse_multicolumn reset_index'
              in case snd staged of
                   Inl e \<Rightarrow> (fst staged, Inl e)
                 | Inr df_agg \<Rightarrow>
                     (case narrow_keys groupby_cols return_cols reset_index' df_agg of
                        Inl e \<Rightarrow> (fst staged, Inl e)
                      | Inr keys \<Rightarrow> (fst staged, getitem_list df_agg keys)))))"

subsection \<open>The reductions sum and mean\<close>

text \<open>
  An instance of the reductions, for the two the specification names. \<^verbatim>\<open>sum\<close> adds
  \<^verbatim>\<open>int64\<close> cells with wrap-around, adds floats, concatenates strings and is a
  \<open>TypeError\<close> on timestamps; \<^verbatim>\<open>mean\<close> of \<^verbatim>\<open>int64\<close> or \<^verbatim>\<open>float64\<close> cells is a
  \<^verbatim>\<open>float64\<close> and \<^verbatim>\<open>mean\<close> of strings a \<open>TypeError\<close>. The mean of timestamps and every
  other reduction of the primitive are outside this instance.
\<close>

definition wrap64 :: "int \<Rightarrow> int" where
  "wrap64 x = (x + 2 ^ 63) mod 2 ^ 64 - 2 ^ 63"

definition sum_mean :: reducer where
  "sum_mean f gs s =
     (if f = ''sum'' then
        (case s of
           Int64 xs \<Rightarrow> Inr (Int64 (map (\<lambda>ps. wrap64 (sum_list (pick xs ps))) gs))
         | Float64 xs \<Rightarrow> Inr (Float64 (map (\<lambda>ps. sum_list (pick xs ps)) gs))
         | Object xs \<Rightarrow> Inr (Object (map (\<lambda>ps. concat (pick xs ps)) gs))
         | Datetime64 ts \<Rightarrow> Inl TypeError)
      else if f = ''mean'' then
        (case s of
           Int64 xs \<Rightarrow>
             Inr (Float64 (map (\<lambda>ps. real_of_int (sum_list (pick xs ps)) / real (length ps)) gs))
         | Float64 xs \<Rightarrow>
             Inr (Float64 (map (\<lambda>ps. sum_list (pick xs ps) / real (length ps)) gs))
         | Object xs \<Rightarrow> Inl TypeError
         | Datetime64 ts \<Rightarrow> Inl NotModelled)
      else Inl NotModelled)"

text \<open>The rows of a frame, cell by cell, for reading a result.\<close>

datatype cell = IntCell int | FloatCell real | StrCell string | TimeCell timestamp

fun cells :: "series \<Rightarrow> cell list" where
  "cells (Int64 xs) = map IntCell xs"
| "cells (Float64 xs) = map FloatCell xs"
| "cells (Object xs) = map StrCell xs"
| "cells (Datetime64 xs) = map TimeCell xs"

definition rows :: "frame \<Rightarrow> cell list list" where
  "rows fr = transpose (map cells (data fr))"

section \<open>Properties of load_data\<close>

lemma load_data_invalid_level_nonempty:
  assumes "file_type \<noteq> []"
      and "l \<notin> set [''raw'', ''interim'', ''processed'', ''external'']"
  shows "load_data io self file_name (Some l) file_type =
           ([], Inl (ValueError ''Please provide valid level''))"
proof -
  obtain c rest where ft: "file_type = c # rest"
    using assms(1) by (cases file_type) auto
  show ?thesis
    using assms(2) unfolding load_data_def ft by (simp add: Let_def)
qed

text \<open>
  C6. The claim: for every file name and file type, loading with a level that is not
  \<open>None\<close> and not one of raw, interim, processed, external fails with the invalid-level
  error, and no file is read. The code misses the empty file type: line 41 reads
  \<^verbatim>\<open>file_type[0]\<close> before the level is looked at, so the call with level
  \<^verbatim>\<open>'bogus'\<close> and file type \<^verbatim>\<open>''\<close> ends in \<open>IndexError\<close>, not in the
  invalid-level error (which \<open>load_data_invalid_level_nonempty\<close> shows for every other
  file type).
\<close>

theorem load_data_invalid_level_empty_file_type:
  "load_data io self file_name (Some ''bogus'') '''' = ([], Inl IndexError)"
  by (simp add: load_data_def)

text \<open>
  C7. For every file name, every level among raw, interim, processed, external and every
  file type among parquet and csv, given with or without the leading dot, \<open>load_data\<close>
  makes exactly one read call, of the reader for the file type, on the path
  \<open>level_dir / (file_name.file_type)\<close>, where \<open>level_dir\<close> is the data-level directory
  keyed by the level; with no level, the read call is on the string
  \<open>file_name.file_type\<close> with no directory in front. The outcome is what the reader
  returns.
\<close>

theorem load_data_resolves_path:
  assumes "level \<in> set [''raw'', ''interim'', ''processed'', ''external'']"
      and "file_type \<in> set [''parquet'', ''csv'', ''.parquet'', ''.csv'']"
  shows "load_data io self file_name (Some level) file_type =
           (let p = PathArg (Div (data_level_dir self level)
                               (file_name @ ''.'' @ strip_separator file_type));
                call = (if strip_separator file_type = ''parquet'' then read_parquet p
                        else read_csv p)
            in ([call], io call))
       \<and> load_data io self file_name None file_type =
           (let p = StrArg (file_name @ ''.'' @ strip_separator file_type);
                call = (if strip_separator file_type = ''parquet'' then read_parquet p
                        else read_csv p)
            in ([call], io call))"
proof -
  have ft: "file_type = ''parquet'' \<or> file_type = ''csv'' \<or> file_type = ''.parquet''
      \<or> file_type = ''.csv''"
    using assms(2) by simp
  have lv: "level = ''raw'' \<or> level = ''interim'' \<or> level = ''processed''
      \<or> level = ''external''"
    using assms(1) by simp
  from ft lv show ?thesis
    by (elim disjE) (simp_all add: load_data_def data_level_dir_def strip_separator_def Let_def)
qed

theorem load_data_resolves_path_witness:
  "load_data (\<lambda>c. Inr c) (DirectoryMapper_init ''elo'' (Path ''/home'')) ''train''
       (Some ''raw'') ''.csv''
     = ([read_csv (PathArg (Div (Div (Div (Div (Path ''/home'') ''elo'') ''data'') ''raw'')
                              ''train.csv''))],
        Inr (read_csv (PathArg (Div (Div (Div (Div (Path ''/home'') ''elo'') ''data'') ''raw'')
                              ''train.csv''))))
   \<and> load_data (\<lambda>c. Inr c) (DirectoryMapper_init ''elo'' (Path ''/home'')) ''train''
       None ''.csv''
     = ([read_csv (StrArg ''train.csv'')], Inr (read_csv (StrArg ''train.csv'')))"
  using load_data_resolves_path [of "''raw''" "''.csv''" "\<lambda>c. Inr c"
      "DirectoryMapper_init ''elo'' (Path ''/home'')" "''train''"]
  by (simp add: data_level_dir_def strip_separator_def DirectoryMapper_init_def Let_def)

section \<open>Properties of create\_date\_parts\<close>

lemma filter_label_distinct:
  "distinct (map fst df) \<Longrightarrow>
     filter (\<lambda>p. fst p = c) df = (case map_of df c of None \<Rightarrow> [] | Some s \<Rightarrow> [(c, s)])"
proof (induction df)
  case Nil
  then show ?case by simp
next
  case (Cons p df)
  show ?case
  proof (cases "fst p = c")
    case True
    then have "c \<notin> fst ` set df" using Cons.prems by auto
    then have "map_of df c = None" by (simp add: map_of_eq_None_iff)
    moreover have "filter (\<lambda>p. fst p = c) df = []"
      using \<open>c \<notin> fst ` set df\<close> by (auto simp: filter_empty_conv)
    ultimately show ?thesis using True by (cases p) auto
  next
    case False
    then show ?thesis using Cons by (cases p) auto
  qed
qed










section \<open>Properties of groupby\_and\_agg\<close>

lemmas groupby_and_agg_unfold =
  groupby_and_agg_def invalid_agg_key_def reset_index_kwarg_def aggregate_and_collapse_def
  groupby_def lookup_column_def group_rows_def nrows_def agg_def sum_mean_def pick_def
  wrap64_def reset_index_def collapse_columns_def removesuffix_def narrow_keys_def
  getitem_list_def of_table_def cmp_def Let_def upt_rec



subsection \<open>The final selection\<close>

lemma concat_hits_labels:
  "list_all (\<lambda>k. map fst (h k) = [k]) ks \<Longrightarrow> map fst (concat (map h ks)) = ks"
  by (induction ks) auto

lemma hit_distinct:
  assumes "distinct (map fst cols)" and "filter (\<lambda>p. fst p = k) cols \<noteq> []"
  shows "map fst (filter (\<lambda>p. fst p = k) cols) = [k]"
proof (cases "map_of cols k")
  case None
  then show ?thesis using assms by (simp add: filter_label_distinct)
next
  case (Some s)
  then show ?thesis using assms(1) by (simp add: filter_label_distinct)
qed

lemma getitem_list_flat_distinct:
  assumes "columns fr = Flat ns" and "distinct ns"
      and "getitem_list fr (map Name ks) = Inr res"
  shows "columns res = Flat ks"
proof -
  define cols where "cols = zip ns (data fr)"
  define h where "h = (\<lambda>k. filter (\<lambda>p. fst p = k) cols)"
  have dc: "distinct (map fst cols)"
    unfolding cols_def using assms(2) by (simp add: map_fst_zip_take distinct_take)
  have hits: "(\<lambda>k. case k of Name s \<Rightarrow> filter (\<lambda>p. fst p = s) cols | Pair q \<Rightarrow> []) \<circ> Name
      = h"
    by (simp add: h_def fun_eq_iff)
  have ok: "\<not> list_ex (\<lambda>x. x = []) (map h ks)"
    and res: "res = Frame (row_index fr) (Flat (map fst (concat (map h ks))))
      (map snd (concat (map h ks)))"
    using assms(3) assms(1) unfolding getitem_list_def Let_def
    by (auto simp: hits cols_def [symmetric] split: if_splits)
  have "map fst (h k) = [k]" if "k \<in> set ks" for k
  proof -
    have "h k \<noteq> []" using ok that by (force simp: list_ex_iff)
    then show ?thesis unfolding h_def by (rule hit_distinct [OF dc])
  qed
  then have "list_all (\<lambda>k. map fst (h k) = [k]) ks" by (simp add: list_all_iff)
  then have "map fst (concat (map h ks)) = ks" by (rule concat_hits_labels)
  then show ?thesis by (simp add: res)
qed

text \<open>
  C2, as amended. The claim as stated (for every call with \<^verbatim>\<open>return_cols\<close> given, the
  columns of the returned table are \<^verbatim>\<open>groupby_cols + return_cols\<close> when the index is
  reset and \<^verbatim>\<open>return_cols\<close> otherwise) fails for the call that line 197 ends early: it
  returns the table it was given, with the columns of that table. What holds: when no
  key of \<^verbatim>\<open>agg_\<close> is missing, the column index reached at line 222 is flat with distinct
  labels, and the call returns a table, then the columns of that table are the grouping
  columns (a list) followed by \<^verbatim>\<open>return_cols\<close> when \<^verbatim>\<open>reset_index\<close> is true, and
  \<^verbatim>\<open>return_cols\<close> as given when it is false.
\<close>

theorem groupby_and_agg_return_cols:
  assumes "\<not> invalid_agg_key df agg'"
      and "reset_index_kwarg kwargs = Inr reset_index'"
      and "aggregate_and_collapse R df groupby_cols agg' collapse_multicolumn reset_index'
             = (ws, Inr df_agg)"
      and "columns df_agg = Flat ns" and "distinct ns"
      and "groupby_and_agg R df groupby_cols agg' collapse_multicolumn (Some return_cols) kwargs
             = (ws', Inr res)"
  shows "(reset_index' \<longrightarrow>
            (\<exists>gs. groupby_cols = ByList gs \<and> columns res = Flat (gs @ return_cols)))
       \<and> (\<not> reset_index' \<longrightarrow> columns res = Flat return_cols)"
proof (cases reset_index')
  case True
  from assms(6) assms(1,2,3) True obtain gs where g: "groupby_cols = ByList gs"
    by (cases groupby_cols) (auto simp: groupby_and_agg_def narrow_keys_def)
  have "getitem_list df_agg (map Name (gs @ return_cols)) = Inr res"
    using assms(6) assms(1,2,3) True g by (simp add: groupby_and_agg_def narrow_keys_def)
  then have "columns res = Flat (gs @ return_cols)"
    by (rule getitem_list_flat_distinct [OF assms(4,5)])
  then show ?thesis using True g by simp
next
  case False
  have "getitem_list df_agg (map Name return_cols) = Inr res"
    using assms(6) assms(1,2,3) False by (simp add: groupby_and_agg_def narrow_keys_def)
  then have "columns res = Flat return_cols"
    by (rule getitem_list_flat_distinct [OF assms(4,5)])
  then show ?thesis using False by simp
qed

theorem groupby_and_agg_return_cols_witness:
  "groupby_and_agg sum_mean
       [(''g'', Object [''a'', ''a'', ''b'']), (''x'', Int64 [1, 3, 5])]
       (ByList [''g'']) (AggDict [(''x'', Many [''sum'', ''mean''])]) True (Some [''x_sum''])
       [''reset_index'' \<mapsto> PyBool True]
     = ([], Inr (Frame [] (Flat [''g'', ''x_sum'']) [Object [''a'', ''b''], Int64 [4, 5]]))
   \<and> columns (Frame [] (Flat [''g'', ''x_sum'']) [Object [''a'', ''b''], Int64 [4, 5]])
     = Flat ([''g''] @ [''x_sum''])"
proof -
  let ?df = "[(''g'', Object [''a'', ''a'', ''b'']), (''x'', Int64 [1, 3, 5])]"
  let ?agg = "AggDict [(''x'', Many [''sum'', ''mean''])]"
  let ?kw = "[''reset_index'' \<mapsto> PyBool True]"
  have h1: "\<not> invalid_agg_key ?df ?agg" by (simp add: invalid_agg_key_def)
  have h2: "reset_index_kwarg ?kw = Inr True" by (simp add: reset_index_kwarg_def)
  have h3: "aggregate_and_collapse sum_mean ?df (ByList [''g'']) ?agg True True
      = ([], Inr (Frame [] (Flat [''g'', ''x_sum'', ''x_mean''])
                    [Object [''a'', ''b''], Int64 [4, 5], Float64 [2, 5]]))"
    by (simp add: groupby_and_agg_unfold)
  have h4: "columns (Frame [] (Flat [''g'', ''x_sum'', ''x_mean''])
                    [Object [''a'', ''b''], Int64 [4, 5], Float64 [2, 5]])
      = Flat [''g'', ''x_sum'', ''x_mean'']" by simp
  have h5: "distinct [''g'', ''x_sum'', ''x_mean'']" by simp
  have h6: "groupby_and_agg sum_mean ?df (ByList [''g'']) ?agg True (Some [''x_sum'']) ?kw
      = ([], Inr (Frame [] (Flat [''g'', ''x_sum'']) [Object [''a'', ''b''], Int64 [4, 5]]))"
    by (simp add: groupby_and_agg_unfold)
  show ?thesis
    using h6 groupby_and_agg_return_cols [OF h1 h2 h3 h4 h5 h6] by simp
qed

theorem groupby_and_agg_return_cols_counterexample:
  "groupby_and_agg sum_mean
       [(''g'', Object [''a'', ''a'', ''b'']), (''x'', Int64 [1, 3, 5])]
       (ByList [''g'']) (AggDict [(''y'', One ''sum'')]) True (Some [''x_sum''])
       [''reset_index'' \<mapsto> PyBool True]
     = ([''Invalid column name passed in agg_ argument - returning original DataFrame''],
        Inr (Frame [] (Flat [''g'', ''x'']) [Object [''a'', ''a'', ''b''], Int64 [1, 3, 5]]))
   \<and> columns (Frame [] (Flat [''g'', ''x'']) [Object [''a'', ''a'', ''b''], Int64 [1, 3, 5]])
     \<noteq> Flat ([''g''] @ [''x_sum''])"
  by (simp add: groupby_and_agg_def invalid_agg_key_def of_table_def)

subsection \<open>The examples of the specification\<close>

text \<open>
  C3. On the table with rows (a, 1), (a, 3), (b, 5) under the columns g and x, grouping
  by \<^verbatim>\<open>['g']\<close> with \<^verbatim>\<open>{'x': ['sum', 'mean']}\<close>, the index reset and the columns
  collapsed, returns, with no warning, the flat columns g, x\_sum, x\_mean and the rows
  (a, 4, 2.0) and (b, 5, 5.0).
\<close>

theorem groupby_and_agg_sum_mean_example:
  "groupby_and_agg sum_mean
       [(''g'', Object [''a'', ''a'', ''b'']), (''x'', Int64 [1, 3, 5])]
       (ByList [''g'']) (AggDict [(''x'', Many [''sum'', ''mean''])]) True None
       [''reset_index'' \<mapsto> PyBool True]
     = ([], Inr (Frame [] (Flat [''g'', ''x_sum'', ''x_mean''])
                   [Object [''a'', ''b''], Int64 [4, 5], Float64 [2, 5]]))
   \<and> rows (Frame [] (Flat [''g'', ''x_sum'', ''x_mean''])
             [Object [''a'', ''b''], Int64 [4, 5], Float64 [2, 5]])
     = [[StrCell ''a'', IntCell 4, FloatCell 2], [StrCell ''b'', IntCell 5, FloatCell 5]]"
  by (simp add: groupby_and_agg_unfold rows_def)

text \<open>
  C4. On the same table, grouping by \<^verbatim>\<open>['g']\<close> with \<^verbatim>\<open>{'x': 'sum'}\<close> and the index
  reset returns the flat columns g, x and the rows (a, 4) and (b, 5). The column index
  is already flat, so the warning of line 219 is emitted on the way.
\<close>

theorem groupby_and_agg_single_sum_example:
  "groupby_and_agg sum_mean
       [(''g'', Object [''a'', ''a'', ''b'']), (''x'', Int64 [1, 3, 5])]
       (ByList [''g'']) (AggDict [(''x'', One ''sum'')]) True None
       [''reset_index'' \<mapsto> PyBool True]
     = ([''No MultiIndex detected. No column collapse wil be performed''],
        Inr (Frame [] (Flat [''g'', ''x'']) [Object [''a'', ''b''], Int64 [4, 5]]))
   \<and> rows (Frame [] (Flat [''g'', ''x'']) [Object [''a'', ''b''], Int64 [4, 5]])
     = [[StrCell ''a'', IntCell 4], [StrCell ''b'', IntCell 5]]"
  by (simp add: groupby_and_agg_unfold rows_def)

subsection \<open>Collapsing\<close>

lemma removesuffix_join:
  "removesuffix (join ''_'' [name, func]) ''_'' = flattened_name name func"
proof (cases "func = []")
  case True
  then show ?thesis by (simp add: removesuffix_def flattened_name_def)
next
  case False
  then obtain b c where f: "func = b @ [c]" by (metis rev_exhaust)
  show ?thesis by (simp add: f removesuffix_def flattened_name_def)
qed

text \<open>
  C5, as amended. The claim as stated (every pair (name, func) becomes name\_func) fails
  for a function name that itself ends in an underscore: line 217 removes that
  underscore. What holds: under \<^verbatim>\<open>collapse_multicolumn\<close> a two-level column index is
  replaced by the flat names of its pairs, in order, with no warning and with the row
  index and the cells untouched; a pair with an empty second level gives exactly the
  name; a pair whose second level is not empty and does not end in an underscore gives
  name\_func; a second level ending in an underscore loses that underscore.
\<close>

theorem collapse_columns_multi:
  "collapse_columns True (Frame ix (Multi ps) d)
     = ([], Frame ix (Flat (map (\<lambda>col. flattened_name (fst col) (snd col)) ps)) d)
   \<and> flattened_name name [] = name
   \<and> (func \<noteq> [] \<longrightarrow> last func \<noteq> CHR ''_'' \<longrightarrow> flattened_name name func = name @ ''_'' @ func)
   \<and> (func \<noteq> [] \<longrightarrow> last func = CHR ''_'' \<longrightarrow>
        flattened_name name func = name @ ''_'' @ butlast func)"
proof -
  have "map (\<lambda>col. removesuffix col ''_'') (map (\<lambda>col. join ''_'' [fst col, snd col]) ps)
      = map (\<lambda>col. flattened_name (fst col) (snd col)) ps"
    by (simp only: map_map comp_def removesuffix_join)
  then show ?thesis by (simp add: collapse_columns_def flattened_name_def)
qed

theorem collapse_columns_multi_witness:
  "collapse_columns True
       (Frame [] (Multi [(''g'', ''''), (''x'', ''sum''), (''x'', ''mean'')])
          [Object [''a'', ''b''], Int64 [4, 5], Float64 [2, 5]])
     = ([], Frame [] (Flat [''g'', ''x_sum'', ''x_mean''])
              [Object [''a'', ''b''], Int64 [4, 5], Float64 [2, 5]])
   \<and> flattened_name ''g'' '''' = ''g''
   \<and> flattened_name ''x'' ''sum'' = ''x_sum''
   \<and> flattened_name ''x'' ''total_'' = ''x_total''"
  using collapse_columns_multi [of "[]" "[(''g'', ''''), (''x'', ''sum''), (''x'', ''mean'')]"
      "[Object [''a'', ''b''], Int64 [4, 5], Float64 [2, 5]]" "''g''" "''sum''"]
  by (simp add: flattened_name_def)

theorem collapse_columns_multi_counterexample:
  "groupby_and_agg (\<lambda>f. sum_mean ''sum'')
       [(''g'', Object [''a'', ''a'', ''b'']), (''x'', Int64 [1, 3, 5])]
       (ByList [''g'']) (AggDict [(''x'', Many [''total_''])]) True None
       [''reset_index'' \<mapsto> PyBool True]
     = ([], Inr (Frame [] (Flat [''g'', ''x_total'']) [Object [''a'', ''b''], Int64 [4, 5]]))
   \<and> collapse_columns True (Frame [] (Multi [(''x'', ''total_'')]) [Int64 [4, 5]])
     = ([], Frame [] (Flat [''x_total'']) [Int64 [4, 5]])
   \<and> ''x_total'' \<noteq> ''x'' @ ''_'' @ ''total_''"
  by (simp add: groupby_and_agg_unfold)

subsection \<open>The keyword argument and the grouping columns\<close>

text \<open>
  C9, as amended. The claim as stated (every call that passes a \<^verbatim>\<open>reset_index\<close> that
  is no boolean fails with an assertion error) fails for the call that line 197 ends
  early: the keys of \<^verbatim>\<open>agg_\<close> are checked first, and that call returns the table it was
  given. What holds: a call that passes \<^verbatim>\<open>reset_index\<close> with a value that is no boolean
  and in which no key of \<^verbatim>\<open>agg_\<close> is missing fails with \<open>AssertionError\<close> and no
  warning, whatever the table, the grouping columns and the reductions are: nothing is
  grouped or aggregated.
\<close>

theorem groupby_and_agg_reset_index_not_bool:
  assumes "\<not> invalid_agg_key df agg'"
      and "kwargs ''reset_index'' = Some v"
      and "\<And>b. v \<noteq> PyBool b"
  shows "groupby_and_agg R df groupby_cols agg' collapse_multicolumn return_cols kwargs =
           ([], Inl AssertionError)"
proof -
  have "reset_index_kwarg kwargs = Inl AssertionError"
    using assms(2) assms(3) by (cases v) (auto simp: reset_index_kwarg_def)
  then show ?thesis using assms(1) by (simp add: groupby_and_agg_def)
qed

theorem groupby_and_agg_reset_index_not_bool_witness:
  "\<not> invalid_agg_key [(''g'', Object [''a'', ''a'', ''b'']), (''x'', Int64 [1, 3, 5])]
        (AggDict [(''x'', One ''sum'')])
   \<and> groupby_and_agg sum_mean
       [(''g'', Object [''a'', ''a'', ''b'']), (''x'', Int64 [1, 3, 5])]
       (ByList [''g'']) (AggDict [(''x'', One ''sum'')]) True None
       [''reset_index'' \<mapsto> PyStr ''yes'']
     = ([], Inl AssertionError)"
proof -
  have h1: "\<not> invalid_agg_key [(''g'', Object [''a'', ''a'', ''b'']), (''x'', Int64 [1, 3, 5])]
      (AggDict [(''x'', One ''sum'')])" by (simp add: invalid_agg_key_def)
  have h2: "[''reset_index'' \<mapsto> PyStr ''yes''] ''reset_index'' = Some (PyStr ''yes'')" by simp
  have h3: "\<And>b. PyStr ''yes'' \<noteq> PyBool b" by simp
  show ?thesis
    using h1 groupby_and_agg_reset_index_not_bool
      [where kwargs = "[''reset_index'' \<mapsto> PyStr ''yes'']" and v = "PyStr ''yes''"
         and R = sum_mean and groupby_cols = "ByList [''g'']" and collapse_multicolumn = True
         and return_cols = None, OF h1 h2 h3]
    by simp
qed

theorem groupby_and_agg_reset_index_not_bool_counterexample:
  "groupby_and_agg sum_mean
       [(''g'', Object [''a'', ''a'', ''b'']), (''x'', Int64 [1, 3, 5])]
       (ByList [''g'']) (AggDict [(''y'', One ''sum'')]) True None
       [''reset_index'' \<mapsto> PyStr ''yes'']
     = ([''Invalid column name passed in agg_ argument - returning original DataFrame''],
        Inr (Frame [] (Flat [''g'', ''x'']) [Object [''a'', ''a'', ''b''], Int64 [1, 3, 5]]))"
  by (simp add: groupby_and_agg_def invalid_agg_key_def of_table_def)

text \<open>
  C10. For every call in which \<^verbatim>\<open>groupby_cols\<close> is a string, \<^verbatim>\<open>return_cols\<close> is a
  list and \<^verbatim>\<open>reset_index\<close> is true: whenever the call reaches the column narrowing of
  line 222 (no key of \<^verbatim>\<open>agg_\<close> is missing, and grouping, aggregating, resetting and
  collapsing succeed), it fails there with \<open>TypeError\<close>, the warnings emitted before
  standing; and no such call that passes the check of the keys returns a table.
\<close>

theorem groupby_and_agg_str_groupby_cols:
  assumes "\<not> invalid_agg_key df agg'"
      and "reset_index_kwarg kwargs = Inr True"
  shows "(\<forall>ws df_agg.
            aggregate_and_collapse R df (ByStr g) agg' collapse_multicolumn True
              = (ws, Inr df_agg)
            \<longrightarrow> groupby_and_agg R df (ByStr g) agg' collapse_multicolumn (Some return_cols) kwargs
              = (ws, Inl TypeError))
       \<and> (\<exists>ws e. groupby_and_agg R df (ByStr g) agg' collapse_multicolumn (Some return_cols) kwargs
              = (ws, Inl e))"
proof -
  obtain ws r where st: "aggregate_and_collapse R df (ByStr g) agg' collapse_multicolumn True
      = (ws, r)" by (cases "aggregate_and_collapse R df (ByStr g) agg' collapse_multicolumn True")
  show ?thesis
    using assms st by (cases r) (simp_all add: groupby_and_agg_def narrow_keys_def)
qed

theorem groupby_and_agg_str_groupby_cols_witness:
  "aggregate_and_collapse sum_mean
       [(''g'', Object [''a'', ''a'', ''b'']), (''x'', Int64 [1, 3, 5])]
       (ByStr ''g'') (AggDict [(''x'', One ''sum'')]) True True
     = ([''No MultiIndex detected. No column collapse wil be performed''],
        Inr (Frame [] (Flat [''g'', ''x'']) [Object [''a'', ''b''], Int64 [4, 5]]))
   \<and> groupby_and_agg sum_mean
       [(''g'', Object [''a'', ''a'', ''b'']), (''x'', Int64 [1, 3, 5])]
       (ByStr ''g'') (AggDict [(''x'', One ''sum'')]) True (Some [''x'']) Map.empty
     = ([''No MultiIndex detected. No column collapse wil be performed''], Inl TypeError)"
proof -
  let ?df = "[(''g'', Object [''a'', ''a'', ''b'']), (''x'', Int64 [1, 3, 5])]"
  have h1: "\<not> invalid_agg_key ?df (AggDict [(''x'', One ''sum'')])"
    by (simp add: invalid_agg_key_def)
  have h2: "reset_index_kwarg Map.empty = Inr True" by (simp add: reset_index_kwarg_def)
  have h3: "aggregate_and_collapse sum_mean ?df (ByStr ''g'') (AggDict [(''x'', One ''sum'')])
      True True
      = ([''No MultiIndex detected. No column collapse wil be performed''],
         Inr (Frame [] (Flat [''g'', ''x'']) [Object [''a'', ''b''], Int64 [4, 5]]))"
    by (simp add: groupby_and_agg_unfold)
  show ?thesis
    using h3 groupby_and_agg_str_groupby_cols [OF h1 h2, of sum_mean "''g''" True "[''x'']"]
    by simp
qed

end
